theory Spec2Isabelle
  imports Main "HOL-Library.Sublist"
begin

section \<open>Go strings as byte sequences\<close>

text \<open>
  A Go string is a sequence of bytes, and so is a HOL \<open>string\<close>. The functions of
  package \<open>strings\<close> that \<open>prompt.go\<close> calls are modelled on bytes. \<open>TrimSpace\<close> and
  \<open>ToLower\<close> are exact on ASCII text; a byte from 0x80 on is kept as it is (Go decodes
  it as part of a UTF-8 rune there).
\<close>

text \<open>\<open>strings.Index(s, substr)\<close>: the index of the first instance of \<open>substr\<close> in
  \<open>s\<close>, or \<open>-1\<close> when there is none.\<close>

fun Index :: "string \<Rightarrow> string \<Rightarrow> int" where
  "Index [] substr = (if substr = [] then 0 else - 1)"
| "Index (c # s) substr =
     (if prefix substr (c # s) then 0
      else (let i = Index s substr in if i < 0 then - 1 else i + 1))"

definition Contains :: "string \<Rightarrow> string \<Rightarrow> bool" where
  "Contains s substr = (0 \<le> Index s substr)"

definition HasPrefix :: "string \<Rightarrow> string \<Rightarrow> bool" where
  "HasPrefix s p = (length p \<le> length s \<and> take (length p) s = p)"

definition asciiSpace :: "char \<Rightarrow> bool" where
  "asciiSpace c = (c \<in> set [CHR 0x09, CHR 0x0A, CHR 0x0B, CHR 0x0C, CHR 0x0D, CHR 0x20])"

definition TrimSpace :: "string \<Rightarrow> string" where
  "TrimSpace s = rev (dropWhile asciiSpace (rev (dropWhile asciiSpace s)))"

definition toLowerByte :: "char \<Rightarrow> char" where
  "toLowerByte c =
     (let n = (of_char c :: nat) in if 65 \<le> n \<and> n \<le> 90 then char_of (n + 32) else c)"

definition ToLower :: "string \<Rightarrow> string" where
  "ToLower s = map toLowerByte s"

text \<open>A run-time panic of the Go program. The slice expression \<open>s[a:b]\<close> panics
  unless \<open>0 \<le> a \<le> b \<le> len(s)\<close>.\<close>

datatype panic = SliceBoundsOutOfRange int int

definition slice :: "string \<Rightarrow> int \<Rightarrow> int \<Rightarrow> panic + string" where
  "slice s a b =
     (if 0 \<le> a \<and> a \<le> b \<and> b \<le> int (length s)
      then Inr (take (nat (b - a)) (drop (nat a) s))
      else Inl (SliceBoundsOutOfRange a b))"

section \<open>Errors\<close>

text \<open>
  Go error values: the two sentinels of package \<open>storage\<close> that the orchestration
  meets, \<open>fmt.Errorf\<close> with a plain message, and \<open>fmt.Errorf("...: %w", err)\<close>, which
  wraps \<open>err\<close>. \<open>Error_text\<close> is \<open>err.Error()\<close>, what \<open>%v\<close> prints.
\<close>

datatype error =
    ErrConfigNotFound
  | ErrResponseNotFound
  | Errorf string
  | Wrapf string error

fun Error_text :: "error \<Rightarrow> string" where
  "Error_text ErrConfigNotFound = ''database configuration not found''"
| "Error_text ErrResponseNotFound = ''assistant response not found''"
| "Error_text (Errorf msg) = msg"
| "Error_text (Wrapf msg e) = msg @ '': '' @ Error_text e"

text \<open>\<open>errors.Is(err, target)\<close> for a sentinel \<open>target\<close>: \<open>err\<close> or an error it wraps.\<close>

fun errors_Is :: "error \<Rightarrow> error \<Rightarrow> bool" where
  "errors_Is (Wrapf msg e) target = (Wrapf msg e = target \<or> errors_Is e target)"
| "errors_Is e target = (e = target)"

section \<open>Prompt builder (\<open>internal/prompt/prompt.go\<close>)\<close>

text \<open>\<open>ExtractResponse\<close>: the result is \<open>Inl\<close> when the slice expression of the
  last line panics.\<close>

definition ExtractResponse :: "string \<Rightarrow> string \<Rightarrow> panic + string" where
  "ExtractResponse tag response =
     (let startTag = ''<'' @ tag @ ''>'';
          endTag = ''</'' @ tag @ ''>'';
          startIndex = Index response startTag;
          endIndex = Index response endTag
      in if startIndex = - 1 \<or> endIndex = - 1 then Inr ''''
         else map_sum id TrimSpace
                (slice response (startIndex + int (length startTag)) endIndex))"

definition dangerousKeywords :: "string list" where
  "dangerousKeywords =
     [''drop'', ''truncate'', ''delete'', ''update'', ''insert'', ''alter'', ''create'']"

text \<open>The loop over \<open>dangerousKeywords\<close>: it returns at the first keyword found.\<close>

fun forbidden_keyword :: "string \<Rightarrow> string list \<Rightarrow> error option" where
  "forbidden_keyword query [] = None"
| "forbidden_keyword query (keyword # rest) =
     (if Contains query keyword
      then Some (Errorf (''query contains forbidden keyword: '' @ keyword))
      else forbidden_keyword query rest)"

text \<open>\<open>ValidateQuery\<close> returns \<open>None\<close> for Go's \<open>nil\<close> error.\<close>

definition ValidateQuery :: "string \<Rightarrow> error option" where
  "ValidateQuery q =
     (let query = ToLower (TrimSpace q)
      in case forbidden_keyword query dangerousKeywords of
           Some e \<Rightarrow> Some e
         | None \<Rightarrow>
             if HasPrefix query ''select'' then None
             else Some (Errorf ''query must start with SELECT''))"

section \<open>Data model (\<open>internal/api/models\<close>)\<close>

record Update =
  Text :: string
  Timestamp :: nat
  Type :: string

record AssistantResponse =
  UUID :: string
  Question :: string
  Success :: bool
  Status :: string
  Response :: "Update list"

record AssistantRequest =
  DBConfigurationName :: string
  RequestQuestion :: string
  LLMProvider :: string
  LLMConfig :: string

record DatabaseConfig =
  Host :: string
  Port :: string
  Username :: string
  Password :: string
  DBName :: string

record LLMConfigData =
  ConfigName :: string
  APIKey :: string
  Model :: string

text \<open>\<open>LoadLLMConfig\<close> returns an \<open>interface{}\<close>; the background task asserts that its
  dynamic type is \<open>*models.LLMConfig\<close>.\<close>

datatype loaded_config = ConfigPointer LLMConfigData | ConfigValue LLMConfigData

section \<open>The world the orchestration runs in\<close>

text \<open>A connection pool (\<open>*sql.DB\<close>) with the settings \<open>createConnectionPool\<close> gives it;
  \<open>ConnMaxLifetime\<close> is in seconds.\<close>

record pool =
  dsn :: string
  MaxOpenConns :: nat
  MaxIdleConns :: nat
  ConnMaxLifetime :: nat

text \<open>What the database driver answers to the schema query and to a query of the
  orchestrator: the call fails, or it yields rows, each of which scans or fails, and a
  final iteration error.\<close>

datatype schema_row =
    SchemaScanError error
  | SchemaRow string "error + string list" "string option"

datatype sql_value = SqlNull | SqlBytes string | SqlString string | SqlInt int

record query_rows =
  Columns :: "error + string list"
  Scans :: "(error + sql_value list) list"
  RowsErr :: "error option"

type_synonym query_data = "(string \<rightharpoonup> sql_value) list"

text \<open>
  The collaborators of the orchestration, outside the repository or behind an interface:
  the configuration store (read only here), the database driver, the LLM provider and the
  JSON encoder. \<open>Ping k\<close> is the outcome of the \<open>k\<close>-th ping of a run, \<open>Complete k\<close> the
  reply to the \<open>k\<close>-th completion request: the rendered prompts flow to the provider
  only, and its reply is arbitrary.
\<close>

record env =
  LoadDatabaseConfig :: "string \<Rightarrow> error + DatabaseConfig"
  LoadLLMConfig :: "string \<Rightarrow> string \<Rightarrow> error + loaded_config"
  GetProvider :: "string \<Rightarrow> error option"
  sql_Open :: "string \<Rightarrow> error option"
  Ping :: "nat \<Rightarrow> error option"
  SchemaQuery :: "error + (schema_row list \<times> error option)"
  QueryContext :: "string \<Rightarrow> error + query_rows"
  Complete :: "nat \<Rightarrow> error + string"
  json_Marshal :: "query_data \<Rightarrow> error + string"

text \<open>
  The mutable state. \<open>assistantResponses\<close> is the response store: saving overwrites the
  record of the UUID and loading an absent UUID fails with \<open>ErrResponseNotFound\<close>, as
  \<open>MemoryStorage\<close> does (and as the upsert of \<open>PostgresStorage\<close> does when the database
  call succeeds). \<open>pools\<close> is the map of the source registry. \<open>clock\<close> is the next value of
  \<open>time.Now()\<close>. Three fields only record what happened: \<open>saved\<close> lists every response
  handed to \<open>SaveAssistantResponse\<close>, oldest first; \<open>executed\<close> lists the SQL texts handed
  to \<open>ExecuteQuery\<close>; \<open>closed\<close> lists the pools that were closed.
\<close>

record world =
  assistantResponses :: "string \<rightharpoonup> AssistantResponse"
  pools :: "string \<rightharpoonup> pool"
  clock :: nat
  pings :: nat
  completions :: nat
  saved :: "AssistantResponse list"
  executed :: "string list"
  closed :: "pool list"

definition Now :: "world \<Rightarrow> nat \<times> world" where
  "Now w = (clock w, w\<lparr>clock := clock w + 1\<rparr>)"

subsection \<open>Response store\<close>

definition SaveAssistantResponse :: "AssistantResponse \<Rightarrow> world \<Rightarrow> error option \<times> world" where
  "SaveAssistantResponse response w =
     (None, w\<lparr>assistantResponses := (assistantResponses w)(UUID response \<mapsto> response),
              saved := saved w @ [response]\<rparr>)"

definition LoadAssistantResponse :: "string \<Rightarrow> world \<Rightarrow> error + AssistantResponse" where
  "LoadAssistantResponse uuid w =
     (case assistantResponses w uuid of
        Some response \<Rightarrow> Inr response
      | None \<Rightarrow> Inl ErrResponseNotFound)"

subsection \<open>\<open>ResponseAppender\<close>\<close>

definition AppendResponse :: "string \<Rightarrow> string \<Rightarrow> string \<Rightarrow> world \<Rightarrow> error option \<times> world" where
  "AppendResponse uuid updateType text w =
     (case LoadAssistantResponse uuid w of
        Inl err \<Rightarrow> (Some (Wrapf ''failed to load response'' err), w)
      | Inr response \<Rightarrow>
          (let (now, w1) = Now w;
               update = \<lparr>Text = text, Timestamp = now, Type = updateType\<rparr>;
               response' = response\<lparr>Response := Response response @ [update]\<rparr>
           in case SaveAssistantResponse response' w1 of
                (Some err, w2) \<Rightarrow> (Some (Wrapf ''failed to save updated response'' err), w2)
              | (None, w2) \<Rightarrow> (None, w2)))"

definition UpdateStatus :: "string \<Rightarrow> string \<Rightarrow> bool \<Rightarrow> world \<Rightarrow> error option \<times> world" where
  "UpdateStatus uuid status success w =
     (case LoadAssistantResponse uuid w of
        Inl err \<Rightarrow> (Some (Wrapf ''failed to load response'' err), w)
      | Inr response \<Rightarrow>
          (let response' = response\<lparr>Status := status, Success := success\<rparr>
           in case SaveAssistantResponse response' w of
                (Some err, w2) \<Rightarrow> (Some (Wrapf ''failed to save updated status'' err), w2)
              | (None, w2) \<Rightarrow> (None, w2)))"

section \<open>Source registry and connector (package \<open>source\<close>)\<close>

record PostgresConnector =
  db :: pool

definition NewPostgresConnector :: "pool \<Rightarrow> PostgresConnector" where
  "NewPostgresConnector p = \<lparr>db = p\<rparr>"

text \<open>The data source name \<open>createConnectionPool\<close> formats from the configuration.\<close>

definition dataSourceName :: "DatabaseConfig \<Rightarrow> string" where
  "dataSourceName config =
     ''host='' @ Host config @ '' port='' @ Port config @ '' user='' @ Username config
       @ '' password='' @ Password config @ '' dbname='' @ DBName config
       @ '' sslmode=disable''"

definition createConnectionPool :: "env \<Rightarrow> DatabaseConfig \<Rightarrow> world \<Rightarrow> (error + pool) \<times> world" where
  "createConnectionPool e config w =
     (let dataSource = dataSourceName config
      in case sql_Open e dataSource of
           Some err \<Rightarrow> (Inl (Wrapf ''failed to open database connection'' err), w)
         | None \<Rightarrow>
             (let p = \<lparr>dsn = dataSource, MaxOpenConns = 25, MaxIdleConns = 5,
                       ConnMaxLifetime = 3600\<rparr>
              in case Ping e (pings w) of
                   Some err \<Rightarrow>
                     (Inl (Wrapf ''failed to ping database'' err),
                      w\<lparr>pings := pings w + 1, closed := closed w @ [p]\<rparr>)
                 | None \<Rightarrow> (Inr p, w\<lparr>pings := pings w + 1\<rparr>)))"

text \<open>\<open>LoadSource\<close> from the point where no valid pool is cached for the name.\<close>

definition LoadSource_create :: "env \<Rightarrow> string \<Rightarrow> world \<Rightarrow> (error + PostgresConnector) \<times> world" where
  "LoadSource_create e dbConfigName w =
     (case LoadDatabaseConfig e dbConfigName of
        Inl err \<Rightarrow> (Inl (Wrapf ''failed to load database config'' err), w)
      | Inr config \<Rightarrow>
          (case createConnectionPool e config w of
             (Inl err, w1) \<Rightarrow> (Inl (Wrapf ''failed to create connection pool'' err), w1)
           | (Inr p, w1) \<Rightarrow>
               (Inr (NewPostgresConnector p), w1\<lparr>pools := (pools w1)(dbConfigName \<mapsto> p)\<rparr>)))"

definition LoadSource :: "env \<Rightarrow> string \<Rightarrow> world \<Rightarrow> (error + PostgresConnector) \<times> world" where
  "LoadSource e dbConfigName w =
     (case pools w dbConfigName of
        Some p \<Rightarrow>
          (case Ping e (pings w) of
             None \<Rightarrow> (Inr (NewPostgresConnector p), w\<lparr>pings := pings w + 1\<rparr>)
           | Some err \<Rightarrow>
               LoadSource_create e dbConfigName
                 (w\<lparr>pings := pings w + 1, pools := (pools w)(dbConfigName := None)\<rparr>))
      | None \<Rightarrow> LoadSource_create e dbConfigName w)"

definition newline :: string where
  "newline = [CHR 0x0A]"

fun Join :: "string list \<Rightarrow> string \<Rightarrow> string" where
  "Join [] sep = []"
| "Join [x] sep = x"
| "Join (x # y # ys) sep = x @ sep @ Join (y # ys) sep"

definition formatSchemaEntry :: "string \<Rightarrow> string \<Rightarrow> string option \<Rightarrow> string list \<Rightarrow> string" where
  "formatSchemaEntry schema tableName tableComment columns =
     schema @ ''Table: '' @ tableName @ newline
       @ (case tableComment of
            Some comment \<Rightarrow> ''Description: '' @ comment @ newline
          | None \<Rightarrow> [])
       @ ''Columns:'' @ newline
       @ concat (map (\<lambda>column. ''  - '' @ column @ newline) columns)
       @ newline"

text \<open>The loop of \<open>processSchemaRows\<close>, with the schema text and the table names so far.\<close>

fun scanSchemaRows :: "schema_row list \<Rightarrow> string \<Rightarrow> string list \<Rightarrow> error + (string \<times> string list)" where
  "scanSchemaRows [] schema processedTable = Inr (schema, processedTable)"
| "scanSchemaRows (SchemaScanError err # rows) schema processedTable =
     Inl (Wrapf ''failed to scan row'' err)"
| "scanSchemaRows (SchemaRow tableName columnsJSON tableComment # rows) schema processedTable =
     (case columnsJSON of
        Inl err \<Rightarrow> Inl (Wrapf ''failed to parse columns'' err)
      | Inr columns \<Rightarrow>
          scanSchemaRows rows (formatSchemaEntry schema tableName tableComment columns)
            (processedTable @ [tableName]))"

definition processSchemaRows :: "string \<Rightarrow> schema_row list \<times> error option \<Rightarrow> world \<Rightarrow> (error + string) \<times> world" where
  "processSchemaRows responseUUID rows w =
     (case scanSchemaRows (fst rows) (''Database Schema:'' @ newline @ newline) [] of
        Inl err \<Rightarrow> (Inl err, w)
      | Inr (schema, processedTable) \<Rightarrow>
          (let (u1, w1) = AppendResponse responseUUID ''debug_log''
                            (''Processed tables: '' @ Join processedTable '', '') w
           in case snd rows of
                Some err \<Rightarrow> (Inl (Wrapf ''error iterating rows'' err), w1)
              | None \<Rightarrow>
                  (let (u2, w2) = AppendResponse responseUUID ''step_output''
                                    ''Schema retrieval completed'' w1
                   in (Inr schema, w2))))"

definition GetSchema :: "env \<Rightarrow> PostgresConnector \<Rightarrow> string \<Rightarrow> world \<Rightarrow> (error + string) \<times> world" where
  "GetSchema e p responseUUID w =
     (let (u1, w1) = AppendResponse responseUUID ''step_output'' ''Fetching database schema...'' w
      in case SchemaQuery e of
           Inl err \<Rightarrow> (Inl (Wrapf ''failed to query schema'' err), w1)
         | Inr rows \<Rightarrow> processSchemaRows responseUUID rows w1)"

definition convertValue :: "sql_value \<Rightarrow> sql_value" where
  "convertValue v = (case v of SqlBytes b \<Rightarrow> SqlString b | _ \<Rightarrow> v)"

definition rowMap :: "string list \<Rightarrow> sql_value list \<Rightarrow> (string \<rightharpoonup> sql_value)" where
  "rowMap columns values =
     fold (\<lambda>(column, v) row. row(column \<mapsto> convertValue v)) (zip columns values) Map.empty"

fun scanRows :: "string list \<Rightarrow> (error + sql_value list) list \<Rightarrow> query_data \<Rightarrow> error + query_data" where
  "scanRows columns [] result = Inr result"
| "scanRows columns (Inl err # rows) result = Inl (Wrapf ''failed to scan row'' err)"
| "scanRows columns (Inr values # rows) result =
     scanRows columns rows (result @ [rowMap columns values])"

definition processQueryResults :: "query_rows \<Rightarrow> error + query_data" where
  "processQueryResults rows =
     (case Columns rows of
        Inl err \<Rightarrow> Inl (Wrapf ''failed to get columns'' err)
      | Inr columns \<Rightarrow>
          (case scanRows columns (Scans rows) [] of
             Inl err \<Rightarrow> Inl err
           | Inr result \<Rightarrow>
               (case RowsErr rows of
                  Some err \<Rightarrow> Inl (Wrapf ''error iterating rows'' err)
                | None \<Rightarrow> Inr result)))"

definition ExecuteQuery :: "env \<Rightarrow> PostgresConnector \<Rightarrow> string \<Rightarrow> world \<Rightarrow> (error + query_data) \<times> world" where
  "ExecuteQuery e p query w =
     (let w1 = w\<lparr>executed := executed w @ [query]\<rparr>
      in case QueryContext e query of
           Inl err \<Rightarrow> (Inl (Wrapf ''failed to execute query'' err), w1)
         | Inr rows \<Rightarrow> (processQueryResults rows, w1))"

section \<open>Orchestrator (\<open>internal/orchastrator/orchastrator.go\<close>)\<close>

record Orchestrator =
  askID :: string
  dbConfigName :: string

text \<open>What a step of the run yields: a value, a returned error, or a panic that unwinds
  to the deferred function of \<open>Run\<close>.\<close>

datatype 'a outcome = Ok 'a | Err error | Panicked panic

definition handleError :: "Orchestrator \<Rightarrow> string \<Rightarrow> error \<Rightarrow> world \<Rightarrow> world" where
  "handleError orc message err w =
     (let (u1, w1) = AppendResponse (askID orc) ''error'' (message @ '': '' @ Error_text err) w;
          (u2, w2) = UpdateStatus (askID orc) ''failed'' False w1
      in w2)"

definition loadAssistantResponse :: "Orchestrator \<Rightarrow> world \<Rightarrow> error + AssistantResponse" where
  "loadAssistantResponse orc w =
     (case LoadAssistantResponse (askID orc) w of
        Inl err \<Rightarrow> Inl (Wrapf ''failed to load assistant response'' err)
      | Inr response \<Rightarrow> Inr response)"

definition connectToDatabase :: "env \<Rightarrow> Orchestrator \<Rightarrow> world \<Rightarrow> (error + PostgresConnector) \<times> world" where
  "connectToDatabase e orc w =
     (case LoadSource e (dbConfigName orc) w of
        (Inl err, w1) \<Rightarrow> (Inl (Wrapf ''failed to connect to source database'' err), w1)
      | (Inr connectDB, w1) \<Rightarrow> (Inr connectDB, w1))"

definition fetchDatabaseSchema :: "env \<Rightarrow> Orchestrator \<Rightarrow> PostgresConnector \<Rightarrow> world \<Rightarrow> (error + string) \<times> world" where
  "fetchDatabaseSchema e orc p w =
     (case GetSchema e p (askID orc) w of
        (Inl err, w1) \<Rightarrow> (Inl (Wrapf ''failed to get schema'' err), w1)
      | (Inr schemaStr, w1) \<Rightarrow> (Inr schemaStr, w1))"

text \<open>The provider's reply to the next completion request.\<close>

definition provider_Complete :: "env \<Rightarrow> world \<Rightarrow> (error + string) \<times> world" where
  "provider_Complete e w = (Complete e (completions w), w\<lparr>completions := completions w + 1\<rparr>)"

definition generateSQLQuery :: "env \<Rightarrow> Orchestrator \<Rightarrow> string \<Rightarrow> string \<Rightarrow> world \<Rightarrow> string outcome \<times> world" where
  "generateSQLQuery e orc schema question w =
     (let (u1, w1) = AppendResponse (askID orc) ''step_output''
                       ''Generating SQL query... please wait'' w;
          (completion, w2) = provider_Complete e w1
      in case completion of
           Inl err \<Rightarrow> (Err (Wrapf ''failed to generate SQL query'' err), w2)
         | Inr content \<Rightarrow>
             (case ExtractResponse ''sql'' content of
                Inl p \<Rightarrow> (Panicked p, w2)
              | Inr query \<Rightarrow>
                  if query = [] then (Err (Errorf ''no SQL query found in LLM response''), w2)
                  else (case AppendResponse (askID orc) ''step_output'' query w2 of
                          (Some err, w3) \<Rightarrow> (Err err, w3)
                        | (None, w3) \<Rightarrow> (Ok query, w3))))"

definition executeQuery :: "env \<Rightarrow> Orchestrator \<Rightarrow> PostgresConnector \<Rightarrow> string \<Rightarrow> world \<Rightarrow> (error + query_data) \<times> world" where
  "executeQuery e orc p query w =
     (case ExecuteQuery e p query w of
        (Inl err, w1) \<Rightarrow> (Inl (Wrapf ''failed to execute query'' err), w1)
      | (Inr result, w1) \<Rightarrow>
          (let (u1, w2) = AppendResponse (askID orc) ''step_output''
                            ''Query executed successfully'' w1
           in (Inr result, w2)))"

definition generateFinalResponse :: "env \<Rightarrow> Orchestrator \<Rightarrow> string \<Rightarrow> query_data \<Rightarrow> world \<Rightarrow> unit outcome \<times> world" where
  "generateFinalResponse e orc question queryResult w =
     (case json_Marshal e queryResult of
        Inl err \<Rightarrow> (Err (Wrapf ''failed to marshal query result'' err), w)
      | Inr resultJSON \<Rightarrow>
          (let (u1, w1) = AppendResponse (askID orc) ''step_output'' ''Generating report...'' w;
               (completion, w2) = provider_Complete e w1
           in case completion of
                Inl err \<Rightarrow> (Err (Wrapf ''failed to generate report'' err), w2)
              | Inr content \<Rightarrow>
                  (case ExtractResponse ''markdown'' content of
                     Inl p \<Rightarrow> (Panicked p, w2)
                   | Inr markdown \<Rightarrow>
                       if markdown = []
                       then (Err (Errorf ''no markdown content found in LLM response''), w2)
                       else (case AppendResponse (askID orc) ''final_response'' markdown w2 of
                               (Some err, w3) \<Rightarrow>
                                 (Err (Wrapf ''failed to append final response'' err), w3)
                             | (None, w3) \<Rightarrow> (Ok (), w3)))))"

text \<open>The body of \<open>Run\<close> up to its return or panic: the panic, if any, and the state.\<close>

definition Run_body :: "env \<Rightarrow> Orchestrator \<Rightarrow> world \<Rightarrow> panic option \<times> world" where
  "Run_body e orc w =
     (case loadAssistantResponse orc w of
        Inl err \<Rightarrow> (None, handleError orc ''Failed to load assistant response'' err w)
      | Inr assistantResponse \<Rightarrow>
          (case connectToDatabase e orc w of
             (Inl err, w1) \<Rightarrow>
               (let (u1, w2) = AppendResponse (askID orc) ''error''
                                 (''Failed to connect to database: '' @ Error_text err) w1
                in (None, handleError orc ''Failed to connect to database'' err w2))
           | (Inr p, w1) \<Rightarrow>
               (case fetchDatabaseSchema e orc p w1 of
                  (Inl err, w2) \<Rightarrow>
                    (None, handleError orc ''Failed to fetch database schema'' err w2)
                | (Inr schema, w2) \<Rightarrow>
                    (case generateSQLQuery e orc schema (Question assistantResponse) w2 of
                       (Panicked pn, w3) \<Rightarrow> (Some pn, w3)
                     | (Err err, w3) \<Rightarrow>
                         (None, handleError orc ''Failed to generate SQL query'' err w3)
                     | (Ok query, w3) \<Rightarrow>
                         (case executeQuery e orc p query w3 of
                            (Inl err, w4) \<Rightarrow>
                              (None, handleError orc ''Failed to execute query'' err w4)
                          | (Inr queryResult, w4) \<Rightarrow>
                              (case generateFinalResponse e orc (Question assistantResponse)
                                      queryResult w4 of
                                 (Panicked pn, w5) \<Rightarrow> (Some pn, w5)
                               | (Err err, w5) \<Rightarrow>
                                   (None, handleError orc
                                            ''Failed to generate final response'' err w5)
                               | (Ok u, w5) \<Rightarrow>
                                   (None, snd (UpdateStatus (askID orc) ''completed''
                                                 True w5))))))))"

text \<open>\<open>Run\<close> with its deferred function: a panic is recovered, and the status is set to
  \<open>failed\<close>.\<close>

definition Run :: "env \<Rightarrow> Orchestrator \<Rightarrow> world \<Rightarrow> world" where
  "Run e orc w =
     (case Run_body e orc w of
        (Some pn, w1) \<Rightarrow> snd (UpdateStatus (askID orc) ''failed'' False w1)
      | (None, w1) \<Rightarrow> w1)"

section \<open>Background task (\<open>internal/api/handlers/assistant.go\<close>)\<close>

text \<open>\<open>Initialize\<close> of the OpenAI provider, the only one \<open>NewOrchestrator\<close> configures:
  it fails when \<open>Validate\<close> does.\<close>

definition Validate :: "LLMConfigData \<Rightarrow> error option" where
  "Validate c =
     (if ConfigName c = [] then Some (Errorf ''name is required'')
      else if APIKey c = [] then Some (Errorf ''API key is required'')
      else if Model c = [] then Some (Errorf ''model is required'')
      else None)"

definition Initialize :: "LLMConfigData \<Rightarrow> error option" where
  "Initialize c =
     (case Validate c of
        Some err \<Rightarrow> Some (Wrapf ''invalid config'' err)
      | None \<Rightarrow> None)"

definition NewOrchestrator :: "env \<Rightarrow> string \<Rightarrow> LLMConfigData \<Rightarrow> string \<Rightarrow> string \<Rightarrow> error + Orchestrator" where
  "NewOrchestrator e provider llmConfig dbName uuid =
     (case GetProvider e provider of
        Some err \<Rightarrow> Inl (Wrapf ''failed to get LLM provider'' err)
      | None \<Rightarrow>
          if provider = ''openai''
          then (case Initialize llmConfig of
                  Some err \<Rightarrow> Inl (Wrapf ''failed to initialize LLM provider'' err)
                | None \<Rightarrow> Inr \<lparr>askID = uuid, dbConfigName = dbName\<rparr>)
          else Inl (Errorf (''unsupported LLM provider: '' @ provider)))"

text \<open>\<open>handleOrchestrationError\<close> builds a response of its own (the zero value for the
  question) and saves it under the UUID.\<close>

definition handleOrchestrationError :: "string \<Rightarrow> string \<Rightarrow> error \<Rightarrow> world \<Rightarrow> world" where
  "handleOrchestrationError uuid message err w =
     (let (now, w1) = Now w;
          response = \<lparr>UUID = uuid, Question = [], Success = False, Status = ''failed'',
                      Response = [\<lparr>Text = message @ '': '' @ Error_text err,
                                   Timestamp = now, Type = ''error''\<rparr>]\<rparr>
      in snd (SaveAssistantResponse response w1))"

definition quoted :: "string \<Rightarrow> string" where
  "quoted s = [CHR 0x27] @ s @ [CHR 0x27]"

text \<open>The function the goroutine of \<open>CreateAssistantRequest\<close> runs between acquiring and
  releasing its slot.\<close>

definition orchestrationTask :: "env \<Rightarrow> AssistantRequest \<Rightarrow> string \<Rightarrow> world \<Rightarrow> world" where
  "orchestrationTask e request uuid w =
     (case LoadLLMConfig e (LLMProvider request) (LLMConfig request) of
        Inl err \<Rightarrow>
          if err = ErrConfigNotFound
          then handleOrchestrationError uuid
                 (''LLM configuration '' @ quoted (LLMConfig request)
                    @ '' not found for provider '' @ quoted (LLMProvider request)) err w
          else handleOrchestrationError uuid ''Failed to load LLM configuration'' err w
      | Inr (ConfigValue c) \<Rightarrow>
          handleOrchestrationError uuid ''Invalid LLM configuration type''
            (Errorf ''expected *models.LLMConfig'') w
      | Inr (ConfigPointer llmConfig) \<Rightarrow>
          (case NewOrchestrator e (LLMProvider request) llmConfig
                  (DBConfigurationName request) uuid of
             Inl err \<Rightarrow> handleOrchestrationError uuid ''Failed to create orchestrator'' err w
           | Inr orc \<Rightarrow> Run e orc w))"

text \<open>\<open>CreateAssistantRequest\<close> for a parsed request and the UUID \<open>uuid.New()\<close> gave: it
  saves the initial response and starts the background task, which is run to its end
  here.\<close>

definition initialResponse :: "string \<Rightarrow> string \<Rightarrow> nat \<Rightarrow> AssistantResponse" where
  "initialResponse uuid question now =
     \<lparr>UUID = uuid, Question = question, Success = True, Status = ''in_progress'',
      Response = [\<lparr>Text = ''Processing your request...'', Timestamp = now,
                   Type = ''step_output''\<rparr>]\<rparr>"

definition CreateAssistantRequest :: "env \<Rightarrow> AssistantRequest \<Rightarrow> string \<Rightarrow> world \<Rightarrow> world" where
  "CreateAssistantRequest e request uuid w =
     (let (now, w1) = Now w
      in case SaveAssistantResponse (initialResponse uuid (RequestQuestion request) now) w1 of
           (Some err, w2) \<Rightarrow> w2
         | (None, w2) \<Rightarrow> orchestrationTask e request uuid w2)"

section \<open>Admission: the channel \<open>orchestratorPool\<close>\<close>








section \<open>Observations on the response store\<close>

text \<open>The number of updates of a kind in a response, and the states a response goes
  through when updates are appended to it one by one.\<close>

definition count_type :: "string \<Rightarrow> AssistantResponse \<Rightarrow> nat" where
  "count_type t r = length (filter (\<lambda>u. Type u = t) (Response r))"

definition appended :: "AssistantResponse \<Rightarrow> Update list \<Rightarrow> AssistantResponse" where
  "appended r new = r\<lparr>Response := Response r @ new\<rparr>"

definition snapshots :: "AssistantResponse \<Rightarrow> Update list \<Rightarrow> AssistantResponse list" where
  "snapshots r new = map (\<lambda>k. appended r (take k new)) [1..<Suc (length new)]"

text \<open>\<open>plain new\<close>: no update of \<open>new\<close> is a final response.
  \<open>logged uuid r new w0 w\<close>: since the state \<open>w0\<close>, where \<open>r\<close> was stored under
  \<open>uuid\<close>, the updates \<open>new\<close> have been appended to it one by one, and nothing else was
  saved.\<close>

definition plain :: "Update list \<Rightarrow> bool" where
  "plain new = (''final_response'' \<notin> set (map Type new))"

definition logged :: "string \<Rightarrow> AssistantResponse \<Rightarrow> Update list \<Rightarrow> world \<Rightarrow> world \<Rightarrow> bool" where
  "logged uuid r new w0 w =
     (assistantResponses w uuid = Some (appended r new)
      \<and> saved w = saved w0 @ snapshots r new)"


text \<open>\<open>finished uuid r new st b w0 w\<close>: since \<open>w0\<close> the updates \<open>new\<close> have been appended
  to \<open>r\<close> one by one, and then its status and success flag were set.\<close>

definition finished :: "string \<Rightarrow> AssistantResponse \<Rightarrow> Update list \<Rightarrow> string \<Rightarrow> bool \<Rightarrow> world \<Rightarrow> world \<Rightarrow> bool" where
  "finished uuid r new st b w0 w =
     (assistantResponses w uuid = Some ((appended r new)\<lparr>Status := st, Success := b\<rparr>)
      \<and> saved w = saved w0 @ snapshots r new @ [(appended r new)\<lparr>Status := st, Success := b\<rparr>])"

text \<open>The three ways a run ends, seen from the store: with an error update and status
  \<open>failed\<close>; after a recovered panic, with status \<open>failed\<close> and no update of its own; with
  a final response and status \<open>completed\<close>.\<close>

definition ended_with_error :: "string \<Rightarrow> AssistantResponse \<Rightarrow> world \<Rightarrow> world \<Rightarrow> bool" where
  "ended_with_error uuid r w0 w =
     (\<exists>new u. plain new \<and> Type u = ''error''
        \<and> finished uuid r (new @ [u]) ''failed'' False w0 w)"

definition ended_after_panic :: "string \<Rightarrow> AssistantResponse \<Rightarrow> world \<Rightarrow> world \<Rightarrow> bool" where
  "ended_after_panic uuid r w0 w =
     (\<exists>new. plain new \<and> finished uuid r new ''failed'' False w0 w)"

definition ended_completed :: "string \<Rightarrow> AssistantResponse \<Rightarrow> world \<Rightarrow> world \<Rightarrow> bool" where
  "ended_completed uuid r w0 w =
     (\<exists>new u. plain new \<and> Type u = ''final_response''
        \<and> finished uuid r (new @ [u]) ''completed'' True w0 w)"


section \<open>A test scenario\<close>

text \<open>
  Stub collaborators for concrete runs: the database configuration \<open>sales_db\<close>, an OpenAI
  configuration \<open>default\<close>, a schema of one table, a connector that answers every query
  with one row, and a provider whose first two replies are given.
\<close>

definition emptyWorld :: world where
  "emptyWorld =
     \<lparr>assistantResponses = Map.empty, pools = Map.empty, clock = 0, pings = 0,
      completions = 0, saved = [], executed = [], closed = []\<rparr>"

definition replies :: "string \<Rightarrow> string \<Rightarrow> nat \<Rightarrow> error + string" where
  "replies first second k =
     (if k = 0 then Inr first
      else if k = 1 then Inr second
      else Inl (Errorf ''no more replies''))"

definition scenarioEnv :: "(nat \<Rightarrow> error + string) \<Rightarrow> env" where
  "scenarioEnv answers =
     \<lparr>LoadDatabaseConfig =
        (\<lambda>name. if name = ''sales_db''
                then Inr \<lparr>Host = ''localhost'', Port = ''5432'', Username = ''reader'',
                          Password = ''secret'', DBName = ''sales''\<rparr>
                else Inl ErrConfigNotFound),
      LoadLLMConfig =
        (\<lambda>provider name.
           if provider = ''openai'' \<and> name = ''default''
           then Inr (ConfigPointer \<lparr>ConfigName = ''default'', APIKey = ''key'', Model = ''gpt-4''\<rparr>)
           else Inl ErrConfigNotFound),
      GetProvider = (\<lambda>provider. None),
      sql_Open = (\<lambda>dataSource. None),
      Ping = (\<lambda>k. None),
      SchemaQuery = Inr ([SchemaRow ''products'' (Inr [''name text'', ''qty integer'']) None], None),
      QueryContext =
        (\<lambda>query. Inr \<lparr>Columns = Inr [''name'', ''sum''],
                       Scans = [Inr [SqlBytes ''widget'', SqlInt 5]], RowsErr = None\<rparr>),
      Complete = answers,
      json_Marshal = (\<lambda>data. Inr ''[{name:widget,sum:5}]'')\<rparr>"

definition scenarioRequest :: "string \<Rightarrow> AssistantRequest" where
  "scenarioRequest llmConfigName =
     \<lparr>DBConfigurationName = ''sales_db'',
      RequestQuestion = ''Show me the top 5 products by sales volume'',
      LLMProvider = ''openai'', LLMConfig = llmConfigName\<rparr>"

text \<open>The state right after \<open>CreateAssistantRequest\<close> has saved the initial response of
  request \<open>u1\<close>, and the orchestrator of that request.\<close>

definition acceptedWorld :: world where
  "acceptedWorld =
     snd (SaveAssistantResponse
            (initialResponse ''u1'' ''Show me the top 5 products by sales volume'' 0)
            (emptyWorld\<lparr>clock := 1\<rparr>))"

definition scenarioOrchestrator :: Orchestrator where
  "scenarioOrchestrator = \<lparr>askID = ''u1'', dbConfigName = ''sales_db''\<rparr>"

text \<open>A registry that holds a pool for \<open>sales_db\<close>, and a database that refuses the next
  ping.\<close>

definition cachedPool :: pool where
  "cachedPool =
     \<lparr>dsn = ''host=localhost port=5432 user=reader password=secret dbname=sales sslmode=disable'',
      MaxOpenConns = 25, MaxIdleConns = 5, ConnMaxLifetime = 3600\<rparr>"

definition cachedWorld :: world where
  "cachedWorld = emptyWorld\<lparr>pools := [''sales_db'' \<mapsto> cachedPool]\<rparr>"

definition unreachableEnv :: env where
  "unreachableEnv =
     (scenarioEnv (replies [] []))
       \<lparr>Ping := (\<lambda>k. if k = 0 then Some (Errorf ''connection refused'') else None)\<rparr>"

section \<open>Properties of the string functions\<close>

lemma Index_ge: "- 1 \<le> Index s sub"
  by (induction s) (auto simp: Let_def)

lemma Contains_sublist: "Contains s sub = sublist sub s"
  unfolding Contains_def
proof (induction s)
  case Nil
  then show ?case by simp
next
  case (Cons c s)
  show ?case
  proof (cases "prefix sub (c # s)")
    case True
    then show ?thesis by (simp add: sublist_Cons_right)
  next
    case False
    have "- 1 \<le> Index s sub" by (rule Index_ge)
    with False Cons show ?thesis
      by (auto simp: Let_def sublist_Cons_right)
  qed
qed

lemma Index_absent: "(Index s sub = - 1) = (\<not> sublist sub s)"
  using Contains_sublist[of s sub] Index_ge[of s sub] by (auto simp: Contains_def)



section \<open>The query validator\<close>



section \<open>Tag extraction\<close>

text \<open>
  C10. On the input \<open></sql> x <sql>\<close> both delimiters are found, the closing one at
  index 0 and the opening one at index 9, so \<open>ExtractResponse\<close> evaluates the slice
  expression \<open>response[14:0]\<close>, which panics: it does not return a string.
\<close>

theorem ExtractResponse_close_before_open_panics:
  "ExtractResponse ''sql'' ''</sql> x <sql>'' = Inl (SliceBoundsOutOfRange 14 0)"
  by code_simp

text \<open>
  C6. The input \<open></sql><sql>a</sql>\<close> holds the pair \<open><sql>a</sql>\<close>, whose trimmed
  interior is \<open>a\<close>; \<open>ExtractResponse\<close> pairs the first opening delimiter (index 6) with
  the first closing delimiter (index 0) and panics on \<open>response[11:0]\<close>.
\<close>

theorem ExtractResponse_pair_after_close_panics:
  "ExtractResponse ''sql'' ''</sql><sql>a</sql>'' = Inl (SliceBoundsOutOfRange 11 0)"
  by code_simp

subsection \<open>Replies with the delimiters in order, or without them\<close>

lemma Index_first:
  assumes "sub \<noteq> []" and "\<not> sublist sub (xs @ butlast sub)"
  shows "Index (xs @ sub @ ys) sub = int (length xs)"
  using assms(2)
proof (induction xs)
  case Nil
  from assms(1) obtain c cs where "sub = c # cs" by (cases sub) auto
  then show ?case by simp
next
  case (Cons x xs)
  have np: "\<not> prefix sub (x # xs @ sub @ ys)"
  proof
    assume p: "prefix sub (x # xs @ sub @ ys)"
    have "x # xs @ sub @ ys = (x # xs @ butlast sub) @ (last sub # ys)"
      using assms(1) by simp
    then have q: "prefix (x # xs @ butlast sub) (x # xs @ sub @ ys)"
      by (metis prefixI)
    have "length sub \<le> length (x # xs @ butlast sub)" by simp
    from prefix_length_prefix[OF p q this]
    have "sublist sub ((x # xs) @ butlast sub)" by (simp add: prefix_imp_sublist)
    with Cons.prems show False by simp
  qed
  have "\<not> sublist sub (xs @ butlast sub)"
    using Cons.prems by (simp add: sublist_Cons_right)
  from Cons.IH[OF this] np show ?case by (simp add: Let_def)
qed

lemma slice_middle:
  "slice (a @ b @ c) (int (length a)) (int (length a) + int (length b)) = Inr b"
  by (simp add: slice_def)

text \<open>
  When the opening or the closing delimiter does not occur in the input,
  \<open>ExtractResponse\<close> returns the empty string; so does
  \<open>ExtractResponse "sql" "no tags here"\<close>.
\<close>

theorem ExtractResponse_missing_delimiter:
  "(\<not> sublist (''<'' @ tag @ ''>'') response \<or> \<not> sublist (''</'' @ tag @ ''>'') response
      \<longrightarrow> ExtractResponse tag response = Inr [])
   \<and> ExtractResponse ''sql'' ''no tags here'' = Inr []"
proof
  show "\<not> sublist (''<'' @ tag @ ''>'') response \<or> \<not> sublist (''</'' @ tag @ ''>'') response
      \<longrightarrow> ExtractResponse tag response = Inr []"
    using Index_absent[of response "''<'' @ tag @ ''>''"]
      Index_absent[of response "''</'' @ tag @ ''>''"]
    by (auto simp: ExtractResponse_def Let_def)
  show "ExtractResponse ''sql'' ''no tags here'' = Inr []" by code_simp
qed

text \<open>An input with an opening delimiter and no closing one.\<close>

theorem ExtractResponse_missing_delimiter_witness:
  "ExtractResponse ''sql'' ''<sql>select 1'' = Inr []"
proof -
  have "\<not> sublist (''</'' @ ''sql'' @ ''>'') ''<sql>select 1''" by code_simp
  with ExtractResponse_missing_delimiter[of "''sql''" "''<sql>select 1''"]
  show ?thesis by blast
qed

text \<open>
  When the input is \<open>pre <tag> mid </tag> post\<close>, where that opening delimiter is
  the first one in the input and that closing delimiter is the first one in the input,
  \<open>ExtractResponse\<close> returns \<open>mid\<close> with the surrounding white space trimmed.
\<close>

theorem ExtractResponse_first_pair:
  assumes "response = pre @ (''<'' @ tag @ ''>'') @ mid @ (''</'' @ tag @ ''>'') @ post"
    and "\<not> sublist (''<'' @ tag @ ''>'') (pre @ butlast (''<'' @ tag @ ''>''))"
    and "\<not> sublist (''</'' @ tag @ ''>'')
            (pre @ (''<'' @ tag @ ''>'') @ mid @ butlast (''</'' @ tag @ ''>''))"
  shows "ExtractResponse tag response = Inr (TrimSpace mid)"
proof -
  let ?s = "''<'' @ tag @ ''>''" and ?e = "''</'' @ tag @ ''>''"
  have i1: "Index response ?s = int (length pre)"
    unfolding assms(1) by (rule Index_first[OF _ assms(2)]) simp
  have "Index ((pre @ ?s @ mid) @ ?e @ post) ?e = int (length (pre @ ?s @ mid))"
    by (rule Index_first) (use assms(3) in simp_all)
  then have i2: "Index response ?e = int (length pre + length ?s + length mid)"
    unfolding assms(1) by simp
  have e1: "int (length pre) + int (length ?s) = int (length (pre @ ?s))"
    and e2: "int (length pre + length ?s + length mid)
               = int (length (pre @ ?s)) + int (length mid)"
    and r: "response = (pre @ ?s) @ mid @ (?e @ post)"
    using assms(1) by simp_all
  have "slice response (int (length pre) + int (length ?s))
          (int (length pre + length ?s + length mid)) = Inr mid"
    unfolding e1 e2 r by (rule slice_middle)
  with i1 i2 show ?thesis
    unfolding ExtractResponse_def Let_def by simp
qed

text \<open>A reply with text around the tagged query.\<close>

theorem ExtractResponse_first_pair_witness:
  "ExtractResponse ''sql'' ''Here it is: <sql> select 1 </sql> done'' = Inr ''select 1''"
proof -
  have h1: "''Here it is: <sql> select 1 </sql> done''
      = ''Here it is: '' @ (''<'' @ ''sql'' @ ''>'') @ '' select 1 '' @ (''</'' @ ''sql'' @ ''>'') @ '' done''"
    by simp
  have h2: "\<not> sublist (''<'' @ ''sql'' @ ''>'') (''Here it is: '' @ butlast (''<'' @ ''sql'' @ ''>''))"
    by code_simp
  have h3: "\<not> sublist (''</'' @ ''sql'' @ ''>'')
            (''Here it is: '' @ (''<'' @ ''sql'' @ ''>'') @ '' select 1 '' @ butlast (''</'' @ ''sql'' @ ''>''))"
    by code_simp
  have t: "TrimSpace '' select 1 '' = ''select 1''" by code_simp
  from ExtractResponse_first_pair[OF h1 h2 h3] t show ?thesis by simp
qed

section \<open>The response log during a run\<close>

lemma snapshots_Nil: "snapshots r [] = []"
  by (simp add: snapshots_def)

lemma snapshots_snoc: "snapshots r (new @ [u]) = snapshots r new @ [appended r (new @ [u])]"
  by (auto simp: snapshots_def)

lemma appended_Nil: "appended r [] = r"
  by (simp add: appended_def)

lemma appended_fields:
  "UUID (appended r new) = UUID r" "Status (appended r new) = Status r"
  "Success (appended r new) = Success r" "Question (appended r new) = Question r"
  "Response (appended r new) = Response r @ new"
  by (simp_all add: appended_def)

lemma appended_appended: "appended (appended r xs) ys = appended r (xs @ ys)"
  by (simp add: appended_def)

lemma plain_simps:
  "plain []" "plain (xs @ ys) = (plain xs \<and> plain ys)"
  "plain (u # us) = (Type u \<noteq> ''final_response'' \<and> plain us)"
  by (auto simp: plain_def)

lemma AppendResponse_stored:
  assumes "assistantResponses w uuid = Some r" and "UUID r = uuid"
  shows "AppendResponse uuid t x w =
           (None, w\<lparr>clock := clock w + 1,
                    assistantResponses := (assistantResponses w)(uuid \<mapsto>
                       appended r [\<lparr>Text = x, Timestamp = clock w, Type = t\<rparr>]),
                    saved := saved w @ [appended r [\<lparr>Text = x, Timestamp = clock w, Type = t\<rparr>]]\<rparr>)"
  using assms
  by (simp add: AppendResponse_def LoadAssistantResponse_def SaveAssistantResponse_def Now_def
      appended_def Let_def)

lemma UpdateStatus_stored:
  assumes "assistantResponses w uuid = Some r" and "UUID r = uuid"
  shows "UpdateStatus uuid st b w =
           (None, w\<lparr>assistantResponses := (assistantResponses w)(uuid \<mapsto>
                       r\<lparr>Status := st, Success := b\<rparr>),
                    saved := saved w @ [r\<lparr>Status := st, Success := b\<rparr>]\<rparr>)"
  using assms
  by (simp add: UpdateStatus_def LoadAssistantResponse_def SaveAssistantResponse_def Let_def)

lemma logged_start: "assistantResponses w uuid = Some r \<Longrightarrow> logged uuid r [] w w"
  by (simp add: logged_def appended_Nil snapshots_Nil)

lemma logged_ghost [simp]:
  "logged uuid r new w0 (w\<lparr>pings := a\<rparr>) = logged uuid r new w0 w"
  "logged uuid r new w0 (w\<lparr>pools := b\<rparr>) = logged uuid r new w0 w"
  "logged uuid r new w0 (w\<lparr>closed := c\<rparr>) = logged uuid r new w0 w"
  "logged uuid r new w0 (w\<lparr>executed := d\<rparr>) = logged uuid r new w0 w"
  "logged uuid r new w0 (w\<lparr>completions := n\<rparr>) = logged uuid r new w0 w"
  by (simp_all add: logged_def)

lemma AppendResponse_logged:
  assumes "logged uuid r new w0 w" and "UUID r = uuid"
  shows "\<exists>u. Type u = t \<and> Text u = x
           \<and> fst (AppendResponse uuid t x w) = None
           \<and> logged uuid r (new @ [u]) w0 (snd (AppendResponse uuid t x w))
           \<and> completions (snd (AppendResponse uuid t x w)) = completions w"
proof -
  from assms have st: "assistantResponses w uuid = Some (appended r new)"
    and uu: "UUID (appended r new) = uuid"
    by (simp_all add: logged_def appended_fields)
  show ?thesis
    apply (rule exI[of _ "\<lparr>Text = x, Timestamp = clock w, Type = t\<rparr>"])
    using assms(1)
    by (simp add: AppendResponse_stored[OF st uu] logged_def appended_appended snapshots_snoc)
qed

lemma connectToDatabase_logged:
  assumes "logged uuid r new w0 w"
  shows "logged uuid r new w0 (snd (connectToDatabase e orc w))
         \<and> completions (snd (connectToDatabase e orc w)) = completions w"
  using assms
  by (auto simp: connectToDatabase_def LoadSource_def LoadSource_create_def
      createConnectionPool_def Let_def
      split: sum.splits option.splits prod.splits)

lemma processSchemaRows_logged:
  assumes "logged uuid r new w0 w" and "UUID r = uuid"
  shows "\<exists>more. plain more \<and> logged uuid r (new @ more) w0 (snd (processSchemaRows uuid rows w))
           \<and> completions (snd (processSchemaRows uuid rows w)) = completions w"
proof (cases "scanSchemaRows (fst rows) (''Database Schema:'' @ newline @ newline) []")
  case (Inl err)
  with assms(1) show ?thesis
    by (intro exI[of _ "[]"]) (simp add: processSchemaRows_def plain_simps)
next
  case (Inr res)
  obtain schema processed where res: "res = (schema, processed)" by (cases res)
  let ?a = "AppendResponse uuid ''debug_log'' (''Processed tables: '' @ Join processed '', '') w"
  from AppendResponse_logged[OF assms, of "''debug_log''" "''Processed tables: '' @ Join processed '', ''"]
  obtain u1 where u1: "Type u1 = ''debug_log''" "logged uuid r (new @ [u1]) w0 (snd ?a)"
    "completions (snd ?a) = completions w" by blast
  show ?thesis
  proof (cases "snd rows")
    case (Some err)
    with Inr res u1 show ?thesis
      by (intro exI[of _ "[u1]"]) (simp add: processSchemaRows_def plain_simps case_prod_beta)
  next
    case None
    let ?b = "AppendResponse uuid ''step_output'' ''Schema retrieval completed'' (snd ?a)"
    from AppendResponse_logged[OF u1(2) assms(2), of "''step_output''" "''Schema retrieval completed''"]
    obtain u2 where u2: "Type u2 = ''step_output''" "logged uuid r ((new @ [u1]) @ [u2]) w0 (snd ?b)"
      "completions (snd ?b) = completions (snd ?a)" by blast
    with None Inr res u1 show ?thesis
      by (intro exI[of _ "[u1, u2]"]) (simp add: processSchemaRows_def plain_simps case_prod_beta)
  qed
qed


lemma GetSchema_logged:
  assumes "logged uuid r new w0 w" and "UUID r = uuid"
  shows "\<exists>more. plain more \<and> logged uuid r (new @ more) w0 (snd (GetSchema e p uuid w))
           \<and> completions (snd (GetSchema e p uuid w)) = completions w"
proof -
  let ?a = "AppendResponse uuid ''step_output'' ''Fetching database schema...'' w"
  from AppendResponse_logged[OF assms, of "''step_output''" "''Fetching database schema...''"]
  obtain u1 where u1: "Type u1 = ''step_output''" "logged uuid r (new @ [u1]) w0 (snd ?a)"
    "completions (snd ?a) = completions w" by blast
  show ?thesis
  proof (cases "SchemaQuery e")
    case (Inl err)
    with u1 show ?thesis
      by (intro exI[of _ "[u1]"]) (simp add: GetSchema_def plain_simps case_prod_beta)
  next
    case (Inr rows)
    from processSchemaRows_logged[OF u1(2) assms(2), of rows]
    obtain more where more: "plain more"
      "logged uuid r ((new @ [u1]) @ more) w0 (snd (processSchemaRows uuid rows (snd ?a)))"
      "completions (snd (processSchemaRows uuid rows (snd ?a))) = completions (snd ?a)"
      by blast
    with Inr u1 show ?thesis
      by (intro exI[of _ "u1 # more"]) (simp add: GetSchema_def plain_simps case_prod_beta)
  qed
qed

lemma fetchDatabaseSchema_logged:
  assumes "logged uuid r new w0 w" and "UUID r = uuid" and "askID orc = uuid"
  shows "\<exists>more. plain more
           \<and> logged uuid r (new @ more) w0 (snd (fetchDatabaseSchema e orc p w))
           \<and> completions (snd (fetchDatabaseSchema e orc p w)) = completions w"
proof -
  have "snd (fetchDatabaseSchema e orc p w) = snd (GetSchema e p uuid w)"
    using assms(3) by (simp add: fetchDatabaseSchema_def split: prod.splits sum.splits)
  with GetSchema_logged[OF assms(1,2), of e p] show ?thesis by simp
qed

lemma executeQuery_logged:
  assumes "logged uuid r new w0 w" and "UUID r = uuid" and "askID orc = uuid"
  shows "\<exists>more. plain more
           \<and> logged uuid r (new @ more) w0 (snd (executeQuery e orc p query w))"
proof -
  let ?w1 = "w\<lparr>executed := executed w @ [query]\<rparr>"
  have l1: "logged uuid r new w0 ?w1" using assms(1) by simp
  show ?thesis
  proof (cases "fst (ExecuteQuery e p query w)")
    case (Inl err)
    then have "snd (executeQuery e orc p query w) = ?w1"
      by (auto simp: executeQuery_def ExecuteQuery_def Let_def split: sum.splits prod.splits)
    with l1 show ?thesis by (intro exI[of _ "[]"]) (simp add: plain_simps)
  next
    case (Inr res)
    let ?a = "AppendResponse uuid ''step_output'' ''Query executed successfully'' ?w1"
    from Inr have "snd (executeQuery e orc p query w) = snd ?a"
      using assms(3)
      by (auto simp: executeQuery_def ExecuteQuery_def Let_def split: sum.splits prod.splits)
    moreover from AppendResponse_logged[OF l1 assms(2), of "''step_output''" "''Query executed successfully''"]
    obtain u1 where "Type u1 = ''step_output''" "logged uuid r (new @ [u1]) w0 (snd ?a)" by blast
    ultimately show ?thesis by (intro exI[of _ "[u1]"]) (simp add: plain_simps)
  qed
qed


lemma UpdateStatus_finished:
  assumes "logged uuid r new w0 w" and "UUID r = uuid"
  shows "finished uuid r new st b w0 (snd (UpdateStatus uuid st b w))"
proof -
  from assms have st: "assistantResponses w uuid = Some (appended r new)"
    and uu: "UUID (appended r new) = uuid"
    by (simp_all add: logged_def appended_fields)
  show ?thesis using assms(1)
    by (simp add: UpdateStatus_stored[OF st uu] finished_def logged_def)
qed

lemma handleError_finished:
  assumes "logged uuid r new w0 w" and "UUID r = uuid" and "askID orc = uuid"
  shows "\<exists>u. Type u = ''error''
           \<and> finished uuid r (new @ [u]) ''failed'' False w0 (handleError orc m err w)"
proof -
  let ?a = "AppendResponse uuid ''error'' (m @ '': '' @ Error_text err) w"
  from AppendResponse_logged[OF assms(1,2), of "''error''" "m @ '': '' @ Error_text err"]
  obtain u where u: "Type u = ''error''" "logged uuid r (new @ [u]) w0 (snd ?a)" by blast
  have "handleError orc m err w = snd (UpdateStatus uuid ''failed'' False (snd ?a))"
    using assms(3) by (simp add: handleError_def case_prod_beta)
  with UpdateStatus_finished[OF u(2) assms(2)] u(1) show ?thesis by auto
qed

lemma generateSQLQuery_logged:
  assumes "logged uuid r new w0 w" and "UUID r = uuid" and "askID orc = uuid"
  shows "\<exists>more. plain more
           \<and> logged uuid r (new @ more) w0 (snd (generateSQLQuery e orc schema q w))
           \<and> (\<forall>content. Complete e (completions w) = Inr content
                 \<longrightarrow> ExtractResponse ''sql'' content = Inr []
                 \<longrightarrow> (\<exists>err. fst (generateSQLQuery e orc schema q w) = Err err))"
proof -
  let ?G = "generateSQLQuery e orc schema q w"
  let ?a = "AppendResponse uuid ''step_output'' ''Generating SQL query... please wait'' w"
  let ?w2 = "(snd ?a)\<lparr>completions := completions (snd ?a) + 1\<rparr>"
  from AppendResponse_logged[OF assms(1,2), of "''step_output''" "''Generating SQL query... please wait''"]
  obtain u1 where u1: "Type u1 = ''step_output''" "logged uuid r (new @ [u1]) w0 (snd ?a)"
    "completions (snd ?a) = completions w" by blast
  have l2: "logged uuid r (new @ [u1]) w0 ?w2" using u1(2) by simp
  note unf = generateSQLQuery_def provider_Complete_def case_prod_beta
  show ?thesis
  proof (cases "Complete e (completions w)")
    case (Inl err)
    then have "?G = (Err (Wrapf ''failed to generate SQL query'' err), ?w2)"
      using assms(3) u1(3) by (simp add: unf)
    with Inl l2 u1(1) show ?thesis by (intro exI[of _ "[u1]"]) (simp add: plain_simps)
  next
    case (Inr content)
    note content = this
    show ?thesis
    proof (cases "ExtractResponse ''sql'' content")
      case (Inl p)
      then have "?G = (Panicked p, ?w2)"
        using assms(3) u1(3) content by (simp add: unf)
      with Inl content l2 u1(1) show ?thesis by (intro exI[of _ "[u1]"]) (simp add: plain_simps)
    next
      case (Inr query)
      show ?thesis
      proof (cases "query = []")
        case True
        then have "?G = (Err (Errorf ''no SQL query found in LLM response''), ?w2)"
          using assms(3) u1(3) content Inr by (simp add: unf)
        with content Inr l2 u1(1) show ?thesis
          by (intro exI[of _ "[u1]"]) (simp add: plain_simps)
      next
        case False
        let ?b = "AppendResponse uuid ''step_output'' query ?w2"
        from AppendResponse_logged[OF l2 assms(2), of "''step_output''" query]
        obtain u2 where u2: "Type u2 = ''step_output''" "fst ?b = None"
          "logged uuid r ((new @ [u1]) @ [u2]) w0 (snd ?b)" by blast
        from content Inr False u2(2) have "?G = (Ok query, snd ?b)"
          using assms(3) u1(3) by (simp add: unf)
        with content Inr False u1(1) u2 show ?thesis
          by (intro exI[of _ "[u1, u2]"]) (simp add: plain_simps)
      qed
    qed
  qed
qed

lemma generateFinalResponse_logged:
  assumes "logged uuid r new w0 w" and "UUID r = uuid" and "askID orc = uuid"
  shows "(\<exists>more. plain more
            \<and> logged uuid r (new @ more) w0 (snd (generateFinalResponse e orc q res w))
            \<and> (\<forall>u. fst (generateFinalResponse e orc q res w) \<noteq> Ok u))
       \<or> (\<exists>more u. plain more \<and> Type u = ''final_response''
            \<and> logged uuid r (new @ more @ [u]) w0 (snd (generateFinalResponse e orc q res w))
            \<and> fst (generateFinalResponse e orc q res w) = Ok ())"
proof (cases "json_Marshal e res")
  case (Inl err)
  with assms(1) have "\<exists>more. plain more
            \<and> logged uuid r (new @ more) w0 (snd (generateFinalResponse e orc q res w))
            \<and> (\<forall>u. fst (generateFinalResponse e orc q res w) \<noteq> Ok u)"
    by (intro exI[of _ "[]"]) (simp add: generateFinalResponse_def plain_simps)
  then show ?thesis by blast
next
  case (Inr resultJSON)
  note json = this
  let ?G = "generateFinalResponse e orc q res w"
  let ?a = "AppendResponse uuid ''step_output'' ''Generating report...'' w"
  let ?w2 = "(snd ?a)\<lparr>completions := completions (snd ?a) + 1\<rparr>"
  from AppendResponse_logged[OF assms(1,2), of "''step_output''" "''Generating report...''"]
  obtain u1 where u1: "Type u1 = ''step_output''" "logged uuid r (new @ [u1]) w0 (snd ?a)"
    by blast
  have l2: "logged uuid r (new @ [u1]) w0 ?w2" using u1(2) by simp
  note unf = generateFinalResponse_def provider_Complete_def case_prod_beta
  have quiet: "?G = (x, ?w2) \<Longrightarrow> (\<forall>u. x \<noteq> Ok u) \<Longrightarrow> ?thesis" for x
    using l2 u1(1) by (intro disjI1 exI[of _ "[u1]"]) (simp add: plain_simps)
  show ?thesis
  proof (cases "Complete e (completions (snd ?a))")
    case (Inl err)
    then have "?G = (Err (Wrapf ''failed to generate report'' err), ?w2)"
      using assms(3) json by (simp add: unf)
    then show ?thesis by (rule quiet) simp
  next
    case (Inr content)
    note content = this
    show ?thesis
    proof (cases "ExtractResponse ''markdown'' content")
      case (Inl p)
      then have "?G = (Panicked p, ?w2)"
        using assms(3) json content by (simp add: unf)
      then show ?thesis by (rule quiet) simp
    next
      case (Inr markdown)
      show ?thesis
      proof (cases "markdown = []")
        case True
        then have "?G = (Err (Errorf ''no markdown content found in LLM response''), ?w2)"
          using assms(3) json content Inr by (simp add: unf)
        then show ?thesis by (rule quiet) simp
      next
        case False
        let ?b = "AppendResponse uuid ''final_response'' markdown ?w2"
        from AppendResponse_logged[OF l2 assms(2), of "''final_response''" markdown]
        obtain u2 where u2: "Type u2 = ''final_response''" "fst ?b = None"
          "logged uuid r ((new @ [u1]) @ [u2]) w0 (snd ?b)" by blast
        from content Inr False u2(2) have "?G = (Ok (), snd ?b)"
          using assms(3) json by (simp add: unf)
        with u1(1) u2 show ?thesis
          by (intro disjI2 exI[of _ "[u1]"] exI[of _ u2]) (simp add: plain_simps)
      qed
    qed
  qed
qed


lemma handleError_ended:
  assumes "logged uuid r new w0 w" and "plain new" and "UUID r = uuid" and "askID orc = uuid"
  shows "ended_with_error uuid r w0 (handleError orc m err w)"
  using handleError_finished[OF assms(1,3,4), of m err] assms(2)
  unfolding ended_with_error_def by blast

lemma Run_ends:
  assumes stored: "assistantResponses w uuid = Some r" and uu: "UUID r = uuid"
    and orc: "askID orc = uuid"
  shows "(ended_with_error uuid r w (Run e orc w)
          \<or> ended_after_panic uuid r w (Run e orc w)
          \<or> ended_completed uuid r w (Run e orc w))
       \<and> (\<forall>content. Complete e (completions w) = Inr content
             \<longrightarrow> ExtractResponse ''sql'' content = Inr []
             \<longrightarrow> ended_with_error uuid r w (Run e orc w))"
proof -
  have l0: "logged uuid r [] w w" using stored by (rule logged_start)
  have load: "loadAssistantResponse orc w = Inr r"
    using stored orc by (simp add: loadAssistantResponse_def LoadAssistantResponse_def)
  obtain c w1 where c: "connectToDatabase e orc w = (c, w1)" by fastforce
  from connectToDatabase_logged[OF l0, of e orc] c
  have l1: "logged uuid r [] w w1" and c1: "completions w1 = completions w" by simp_all
  show ?thesis
  proof (cases c)
    case (Inl err)
    let ?a = "AppendResponse uuid ''error'' (''Failed to connect to database: '' @ Error_text err) w1"
    from AppendResponse_logged[OF l1 uu, of "''error''" "''Failed to connect to database: '' @ Error_text err"]
    obtain u where u: "Type u = ''error''" "logged uuid r ([] @ [u]) w (snd ?a)" by blast
    have "Run e orc w = handleError orc ''Failed to connect to database'' err (snd ?a)"
      using load c Inl orc by (simp add: Run_def Run_body_def case_prod_beta)
    moreover have "plain ([] @ [u])" using u(1) by (simp add: plain_simps)
    ultimately have "ended_with_error uuid r w (Run e orc w)"
      using handleError_ended[OF u(2) _ uu orc] by simp
    then show ?thesis by simp
  next
    case (Inr p)
    note conn = this
    obtain s w2 where s: "fetchDatabaseSchema e orc p w1 = (s, w2)" by fastforce
    from fetchDatabaseSchema_logged[OF l1 uu orc, of e p] s
    obtain m2 where m2: "plain m2" "logged uuid r ([] @ m2) w w2" "completions w2 = completions w1"
      by auto
    show ?thesis
    proof (cases s)
      case (Inl err)
      have "Run e orc w = handleError orc ''Failed to fetch database schema'' err w2"
        using load c conn s Inl by (simp add: Run_def Run_body_def)
      with handleError_ended[OF m2(2) _ uu orc] m2(1)
      have "ended_with_error uuid r w (Run e orc w)" by (simp add: plain_simps)
      then show ?thesis by simp
    next
      case (Inr schema)
      note sch = this
      obtain g w3 where g: "generateSQLQuery e orc schema (Question r) w2 = (g, w3)" by fastforce
      from generateSQLQuery_logged[OF m2(2) uu orc, of e schema "Question r"] g
      obtain m3 where m3: "plain m3" "logged uuid r (([] @ m2) @ m3) w w3"
        "\<forall>content. Complete e (completions w2) = Inr content
             \<longrightarrow> ExtractResponse ''sql'' content = Inr [] \<longrightarrow> (\<exists>err. g = Err err)"
        by auto
      have pl3: "plain (([] @ m2) @ m3)" using m2(1) m3(1) by (simp add: plain_simps)
      have cw: "completions w2 = completions w" using m2(3) c1 by simp
      show ?thesis
      proof (cases g)
        case (Err err)
        have "Run e orc w = handleError orc ''Failed to generate SQL query'' err w3"
          using load c conn s sch g Err by (simp add: Run_def Run_body_def)
        with handleError_ended[OF m3(2) pl3 uu orc]
        have "ended_with_error uuid r w (Run e orc w)" by simp
        then show ?thesis by simp
      next
        case (Panicked pn)
        have "Run e orc w = snd (UpdateStatus uuid ''failed'' False w3)"
          using load c conn s sch g Panicked orc by (simp add: Run_def Run_body_def)
        with UpdateStatus_finished[OF m3(2) uu, of "''failed''" False] pl3
        have "ended_after_panic uuid r w (Run e orc w)"
          unfolding ended_after_panic_def by auto
        moreover from m3(3) Panicked cw
        have "\<forall>content. Complete e (completions w) = Inr content
             \<longrightarrow> ExtractResponse ''sql'' content \<noteq> Inr []" by auto
        ultimately show ?thesis by simp
      next
        case (Ok query)
        from m3(3) Ok cw
        have notempty: "\<forall>content. Complete e (completions w) = Inr content
             \<longrightarrow> ExtractResponse ''sql'' content \<noteq> Inr []" by auto
        obtain x w4 where x: "executeQuery e orc p query w3 = (x, w4)" by fastforce
        from executeQuery_logged[OF m3(2) uu orc, of e p query] x
        obtain m4 where m4: "plain m4" "logged uuid r ((([] @ m2) @ m3) @ m4) w w4" by auto
        have pl4: "plain ((([] @ m2) @ m3) @ m4)" using pl3 m4(1) by (simp add: plain_simps)
        show ?thesis
        proof (cases x)
          case (Inl err)
          have "Run e orc w = handleError orc ''Failed to execute query'' err w4"
            using load c conn s sch g Ok x Inl by (simp add: Run_def Run_body_def)
          with handleError_ended[OF m4(2) pl4 uu orc]
          have "ended_with_error uuid r w (Run e orc w)" by simp
          then show ?thesis by simp
        next
          case (Inr queryResult)
          obtain f w5 where f: "generateFinalResponse e orc (Question r) queryResult w4 = (f, w5)"
            by fastforce
          note path = load c conn s sch g Ok x Inr f
          from generateFinalResponse_logged[OF m4(2) uu orc, of e "Question r" queryResult] f
          consider (quiet) m5 where "plain m5" "logged uuid r (((([] @ m2) @ m3) @ m4) @ m5) w w5"
              "\<forall>u. f \<noteq> Ok u"
            | (final) m5 u where "plain m5" "Type u = ''final_response''"
              "logged uuid r (((([] @ m2) @ m3) @ m4) @ m5 @ [u]) w w5" "f = Ok ()"
            by auto
          then have "ended_with_error uuid r w (Run e orc w)
              \<or> ended_after_panic uuid r w (Run e orc w)
              \<or> ended_completed uuid r w (Run e orc w)"
          proof cases
            case quiet
            have pl5: "plain (((([] @ m2) @ m3) @ m4) @ m5)"
              using pl4 quiet(1) by (simp add: plain_simps)
            show ?thesis
            proof (cases f)
              case (Ok u)
              with quiet(3) show ?thesis by simp
            next
              case (Err err)
              have "Run e orc w = handleError orc ''Failed to generate final response'' err w5"
                using path Err by (simp add: Run_def Run_body_def)
              with handleError_ended[OF quiet(2) pl5 uu orc] show ?thesis by simp
            next
              case (Panicked pn)
              have "Run e orc w = snd (UpdateStatus uuid ''failed'' False w5)"
                using path Panicked orc by (simp add: Run_def Run_body_def)
              with UpdateStatus_finished[OF quiet(2) uu, of "''failed''" False] pl5
              show ?thesis unfolding ended_after_panic_def by auto
            qed
          next
            case final
            have pl5: "plain ((([] @ m2) @ m3) @ m4 @ m5)"
              using pl4 final(1) by (simp add: plain_simps)
            have "Run e orc w = snd (UpdateStatus uuid ''completed'' True w5)"
              using path final(4) orc by (simp add: Run_def Run_body_def)
            with UpdateStatus_finished[OF final(3) uu, of "''completed''" True] pl5 final(2)
            have "ended_completed uuid r w (Run e orc w)"
              unfolding ended_completed_def
              by (intro exI[of _ "(([] @ m2) @ m3) @ m4 @ m5"] exI[of _ u]) simp
            then show ?thesis by simp
          qed
          with notempty show ?thesis by simp
        qed
      qed
    qed
  qed
qed




lemma count_type_status [simp]:
  "count_type t (r\<lparr>Status := st, Success := b\<rparr>) = count_type t r"
  by (simp add: count_type_def)










section \<open>Final response and completion\<close>




section \<open>Empty extraction from the first completion\<close>



section \<open>Runs only append\<close>

lemma take_prefix_take: "k \<le> l \<Longrightarrow> prefix (take k xs) (take l xs)"
  by (metis min.absorb1 take_is_prefix take_take)

lemma snapshots_chain:
  "sorted_wrt (\<lambda>a b. prefix (Response a) (Response b)) (snapshots r new)"
proof -
  have "sorted_wrt (<) [1..<Suc (length new)]" by (rule sorted_wrt_upt)
  then have "sorted_wrt (\<lambda>k l. prefix (Response (appended r (take k new)))
                                  (Response (appended r (take l new)))) [1..<Suc (length new)]"
    by (rule sorted_wrt_mono_rel[rotated]) (simp add: appended_fields take_prefix_take)
  then show ?thesis by (simp add: snapshots_def sorted_wrt_map)
qed

lemma snapshots_between:
  "list_all (\<lambda>s. prefix (Response r) (Response s) \<and> prefix (Response s) (Response r @ new))
     (snapshots r new)"
  by (simp add: snapshots_def list_all_iff appended_fields take_is_prefix)

lemma finished_chain:
  assumes "finished uuid r new st b w w'"
  shows "\<exists>tr r'. saved w' = saved w @ tr \<and> assistantResponses w' uuid = Some r'
           \<and> Status r' = st \<and> Success r' = b \<and> prefix (Response r) (Response r')
           \<and> list_all (\<lambda>s. prefix (Response r) (Response s)) tr
           \<and> sorted_wrt (\<lambda>a b. prefix (Response a) (Response b)) tr"
proof -
  let ?fin = "(appended r new)\<lparr>Status := st, Success := b\<rparr>"
  have f: "Response ?fin = Response r @ new" by (simp add: appended_def)
  have "list_all (\<lambda>s. prefix (Response r) (Response s)) (snapshots r new @ [?fin])"
    using snapshots_between[of r new] f by (simp add: list_all_iff)
  moreover have "sorted_wrt (\<lambda>a b. prefix (Response a) (Response b)) (snapshots r new @ [?fin])"
    using snapshots_chain[of r new] snapshots_between[of r new] f
    by (simp add: sorted_wrt_append list_all_iff)
  ultimately show ?thesis
    using assms f
    by (intro exI[of _ "snapshots r new @ [?fin]"] exI[of _ ?fin]) (simp add: finished_def)
qed

text \<open>
  When the response of the request is stored, a run of the orchestrator ends with
  the status \<open>failed\<close> and success \<open>false\<close>, or \<open>completed\<close> and success \<open>true\<close>; every
  response it saves keeps the updates stored before the run as a prefix of its updates,
  and the updates of each saved response are a prefix of those of every later one.
\<close>

theorem Run_only_appends_and_settles:
  assumes "assistantResponses w (askID orc) = Some r" and "UUID r = askID orc"
  shows "\<exists>tr r'. saved (Run e orc w) = saved w @ tr
           \<and> assistantResponses (Run e orc w) (askID orc) = Some r'
           \<and> (Status r' = ''failed'' \<and> Success r' = False
                \<or> Status r' = ''completed'' \<and> Success r' = True)
           \<and> prefix (Response r) (Response r')
           \<and> list_all (\<lambda>s. prefix (Response r) (Response s)) tr
           \<and> sorted_wrt (\<lambda>a b. prefix (Response a) (Response b)) tr"
proof -
  from Run_ends[OF assms refl, of e]
  obtain new st b where "finished (askID orc) r new st b w (Run e orc w)"
    and "st = ''failed'' \<and> b = False \<or> st = ''completed'' \<and> b = True"
    unfolding ended_with_error_def ended_after_panic_def ended_completed_def by blast
  with finished_chain[of "askID orc" r new st b w "Run e orc w"] show ?thesis by blast
qed

text \<open>A run that completes.\<close>

theorem Run_only_appends_and_settles_witness:
  "\<exists>tr r'. saved (Run (scenarioEnv (replies ''<sql>select 1</sql>'' ''<markdown>one</markdown>''))
                     scenarioOrchestrator acceptedWorld) = saved acceptedWorld @ tr
           \<and> assistantResponses (Run (scenarioEnv (replies ''<sql>select 1</sql>'' ''<markdown>one</markdown>''))
                     scenarioOrchestrator acceptedWorld) ''u1'' = Some r'
           \<and> (Status r' = ''failed'' \<and> Success r' = False
                \<or> Status r' = ''completed'' \<and> Success r' = True)
           \<and> prefix (Response (initialResponse ''u1'' ''Show me the top 5 products by sales volume'' 0))
                (Response r')
           \<and> list_all (\<lambda>s. prefix (Response (initialResponse ''u1'' ''Show me the top 5 products by sales volume'' 0))
                                 (Response s)) tr
           \<and> sorted_wrt (\<lambda>a b. prefix (Response a) (Response b)) tr"
proof -
  have h1: "assistantResponses acceptedWorld (askID scenarioOrchestrator)
              = Some (initialResponse ''u1'' ''Show me the top 5 products by sales volume'' 0)"
    by code_simp
  have h2: "UUID (initialResponse ''u1'' ''Show me the top 5 products by sales volume'' 0)
              = askID scenarioOrchestrator"
    by code_simp
  have u: "askID scenarioOrchestrator = ''u1''" by code_simp
  from Run_only_appends_and_settles[OF h1 h2] show ?thesis
    unfolding u .
qed

section \<open>Defects shown by concrete runs\<close>

text \<open>
  C1. A request names an LLM configuration that does not exist. The task saves the
  initial response with the update \<open>Processing your request...\<close>, and then
  \<open>handleOrchestrationError\<close> saves a response built from scratch under the same UUID:
  the stored updates become the single \<open>error\<close> update, the earlier update and the
  question are gone.
\<close>

theorem handleOrchestrationError_replaces_updates:
  "saved (CreateAssistantRequest (scenarioEnv (replies [] [])) (scenarioRequest ''absent'')
            ''u1'' emptyWorld)
   = [\<lparr>UUID = ''u1'', Question = ''Show me the top 5 products by sales volume'',
       Success = True, Status = ''in_progress'',
       Response = [\<lparr>Text = ''Processing your request...'', Timestamp = 0,
                    Type = ''step_output''\<rparr>]\<rparr>,
      \<lparr>UUID = ''u1'', Question = [], Success = False, Status = ''failed'',
       Response = [\<lparr>Text = ''LLM configuration '' @ quoted ''absent''
                              @ '' not found for provider '' @ quoted ''openai''
                              @ '': database configuration not found'',
                    Timestamp = 1, Type = ''error''\<rparr>]\<rparr>]"
  by code_simp

text \<open>
  C2. The first completion is \<open><sql>drop table users</sql>\<close>. \<open>ValidateQuery\<close> rejects
  the extracted text, and the run hands it to \<open>ExecuteQuery\<close> all the same and completes:
  no step of \<open>Run\<close> calls the validator.
\<close>

theorem orchestrator_executes_rejected_query:
  "executed (Run (scenarioEnv (replies ''<sql>drop table users</sql>'' ''<markdown>done</markdown>''))
               scenarioOrchestrator acceptedWorld) = [''drop table users'']
   \<and> ValidateQuery ''drop table users''
       = Some (Errorf ''query contains forbidden keyword: drop'')
   \<and> map_option Status
         (assistantResponses
            (Run (scenarioEnv (replies ''<sql>drop table users</sql>'' ''<markdown>done</markdown>''))
               scenarioOrchestrator acceptedWorld) ''u1'') = Some ''completed''"
  by code_simp

text \<open>
  C3. The first completion is \<open></sql> x <sql>\<close>: \<open>ExtractResponse\<close> panics inside
  \<open>generateSQLQuery\<close>, the deferred function of \<open>Run\<close> recovers and sets the status to
  \<open>failed\<close>, and no \<open>error\<close> update is appended.
\<close>

theorem recovered_panic_leaves_no_error_update:
  "fst (Run_body (scenarioEnv (replies ''</sql> x <sql>'' [])) scenarioOrchestrator acceptedWorld)
     = Some (SliceBoundsOutOfRange 14 0)
   \<and> map_option (\<lambda>r. (Status r, Success r, map Type (Response r)))
         (assistantResponses
            (Run (scenarioEnv (replies ''</sql> x <sql>'' [])) scenarioOrchestrator acceptedWorld)
            ''u1'')
       = Some (''failed'', False,
               [''step_output'', ''step_output'', ''debug_log'', ''step_output'', ''step_output''])"
  by code_simp

section \<open>Source registry\<close>

text \<open>
  C8. \<open>LoadSource\<close> for a configuration name: a cached pool is pinged, and reused when
  the ping succeeds; when the ping fails the pool is removed from the map and the
  resolution goes on as it does for a name with no cached pool. With no cached pool the
  configuration is loaded, and its absence fails the resolution with an error that wraps
  \<open>ErrConfigNotFound\<close> and leaves the map as it was; otherwise a pool is opened with 25
  open connections, 5 idle connections and a lifetime of one hour, and pinged: if the
  ping succeeds the pool is cached under the name and returned, if it fails the
  resolution fails and the map is unchanged, the pool not cached.
\<close>

theorem LoadSource_resolution:
  "(pools w name = Some p \<and> Ping e (pings w) = None \<longrightarrow>
      LoadSource e name w = (Inr (NewPostgresConnector p), w\<lparr>pings := pings w + 1\<rparr>))
   \<and> (pools w name = Some p \<and> Ping e (pings w) = Some err \<longrightarrow>
      LoadSource e name w =
        LoadSource e name (w\<lparr>pings := pings w + 1, pools := (pools w)(name := None)\<rparr>))
   \<and> (pools w name = None \<and> LoadDatabaseConfig e name = Inl ErrConfigNotFound \<longrightarrow>
      (\<exists>err'. LoadSource e name w = (Inl err', w) \<and> errors_Is err' ErrConfigNotFound))
   \<and> (pools w name = None \<and> LoadDatabaseConfig e name = Inr config
        \<and> sql_Open e (dataSourceName config) = None \<and> Ping e (pings w) = None \<longrightarrow>
      (\<exists>p'. LoadSource e name w =
               (Inr (NewPostgresConnector p'),
                w\<lparr>pings := pings w + 1, pools := (pools w)(name \<mapsto> p')\<rparr>)
            \<and> dsn p' = dataSourceName config
            \<and> MaxOpenConns p' = 25 \<and> MaxIdleConns p' = 5 \<and> ConnMaxLifetime p' = 3600))
   \<and> (pools w name = None \<and> LoadDatabaseConfig e name = Inr config
        \<and> sql_Open e (dataSourceName config) = None \<and> Ping e (pings w) = Some err \<longrightarrow>
      (\<exists>err' w'. LoadSource e name w = (Inl err', w') \<and> pools w' = pools w
            \<and> pools w' name = None
            \<and> err' = Wrapf ''failed to create connection pool''
                       (Wrapf ''failed to ping database'' err)))"
proof (intro conjI impI)
  assume "pools w name = Some p \<and> Ping e (pings w) = None"
  then show "LoadSource e name w = (Inr (NewPostgresConnector p), w\<lparr>pings := pings w + 1\<rparr>)"
    by (simp add: LoadSource_def)
next
  assume "pools w name = Some p \<and> Ping e (pings w) = Some err"
  then show "LoadSource e name w =
        LoadSource e name (w\<lparr>pings := pings w + 1, pools := (pools w)(name := None)\<rparr>)"
    by (simp add: LoadSource_def)
next
  assume "pools w name = None \<and> LoadDatabaseConfig e name = Inl ErrConfigNotFound"
  then have "LoadSource e name w
      = (Inl (Wrapf ''failed to load database config'' ErrConfigNotFound), w)"
    by (simp add: LoadSource_def LoadSource_create_def)
  then show "\<exists>err'. LoadSource e name w = (Inl err', w) \<and> errors_Is err' ErrConfigNotFound"
    by simp
next
  assume a: "pools w name = None \<and> LoadDatabaseConfig e name = Inr config
        \<and> sql_Open e (dataSourceName config) = None \<and> Ping e (pings w) = None"
  let ?p = "\<lparr>dsn = dataSourceName config, MaxOpenConns = 25, MaxIdleConns = 5,
             ConnMaxLifetime = 3600\<rparr>"
  from a have "LoadSource e name w =
               (Inr (NewPostgresConnector ?p),
                w\<lparr>pings := pings w + 1, pools := (pools w)(name \<mapsto> ?p)\<rparr>)"
    by (simp add: LoadSource_def LoadSource_create_def createConnectionPool_def)
  then show "\<exists>p'. LoadSource e name w =
               (Inr (NewPostgresConnector p'),
                w\<lparr>pings := pings w + 1, pools := (pools w)(name \<mapsto> p')\<rparr>)
            \<and> dsn p' = dataSourceName config
            \<and> MaxOpenConns p' = 25 \<and> MaxIdleConns p' = 5 \<and> ConnMaxLifetime p' = 3600"
    by (intro exI[of _ ?p]) simp
next
  assume a: "pools w name = None \<and> LoadDatabaseConfig e name = Inr config
        \<and> sql_Open e (dataSourceName config) = None \<and> Ping e (pings w) = Some err"
  then have "LoadSource e name w =
      (Inl (Wrapf ''failed to create connection pool'' (Wrapf ''failed to ping database'' err)),
       w\<lparr>pings := pings w + 1,
         closed := closed w @ [\<lparr>dsn = dataSourceName config, MaxOpenConns = 25,
                                 MaxIdleConns = 5, ConnMaxLifetime = 3600\<rparr>]\<rparr>)"
    by (simp add: LoadSource_def LoadSource_create_def createConnectionPool_def)
  with a show "\<exists>err' w'. LoadSource e name w = (Inl err', w') \<and> pools w' = pools w
            \<and> pools w' name = None
            \<and> err' = Wrapf ''failed to create connection pool''
                       (Wrapf ''failed to ping database'' err)"
    by simp
qed


text \<open>C8 on a registry with a cached pool and on an empty one, each with a database that
  answers the ping and with one that refuses it, and on an unknown configuration name.\<close>

theorem LoadSource_resolution_witness:
  "LoadSource (scenarioEnv (replies [] [])) ''sales_db'' cachedWorld
     = (Inr (NewPostgresConnector cachedPool), cachedWorld\<lparr>pings := pings cachedWorld + 1\<rparr>)
   \<and> LoadSource unreachableEnv ''sales_db'' cachedWorld
     = LoadSource unreachableEnv ''sales_db''
         (cachedWorld\<lparr>pings := pings cachedWorld + 1,
                      pools := (pools cachedWorld)(''sales_db'' := None)\<rparr>)
   \<and> (\<exists>err'. LoadSource (scenarioEnv (replies [] [])) ''unknown_db'' emptyWorld
                 = (Inl err', emptyWorld)
              \<and> errors_Is err' ErrConfigNotFound)
   \<and> (\<exists>p'. LoadSource (scenarioEnv (replies [] [])) ''sales_db'' emptyWorld
               = (Inr (NewPostgresConnector p'),
                  emptyWorld\<lparr>pings := pings emptyWorld + 1,
                             pools := (pools emptyWorld)(''sales_db'' \<mapsto> p')\<rparr>)
            \<and> dsn p' = dsn cachedPool
            \<and> MaxOpenConns p' = 25 \<and> MaxIdleConns p' = 5 \<and> ConnMaxLifetime p' = 3600)
   \<and> (\<exists>err' w'. LoadSource unreachableEnv ''sales_db'' emptyWorld = (Inl err', w')
            \<and> pools w' = pools emptyWorld \<and> pools w' ''sales_db'' = None
            \<and> err' = Wrapf ''failed to create connection pool''
                       (Wrapf ''failed to ping database'' (Errorf ''connection refused'')))"
proof -
  let ?e = "scenarioEnv (replies [] [])"
  let ?c = "\<lparr>Host = ''localhost'', Port = ''5432'', Username = ''reader'',
             Password = ''secret'', DBName = ''sales''\<rparr>"
  have h1: "pools cachedWorld ''sales_db'' = Some cachedPool \<and> Ping ?e (pings cachedWorld) = None"
    by code_simp
  have h2: "pools cachedWorld ''sales_db'' = Some cachedPool
      \<and> Ping unreachableEnv (pings cachedWorld) = Some (Errorf ''connection refused'')"
    by code_simp
  have h3: "pools emptyWorld ''unknown_db'' = None
      \<and> LoadDatabaseConfig ?e ''unknown_db'' = Inl ErrConfigNotFound"
    by code_simp
  have h4: "pools emptyWorld ''sales_db'' = None \<and> LoadDatabaseConfig ?e ''sales_db'' = Inr ?c
        \<and> sql_Open ?e (dataSourceName ?c) = None \<and> Ping ?e (pings emptyWorld) = None"
    by code_simp
  have h5: "pools emptyWorld ''sales_db'' = None
        \<and> LoadDatabaseConfig unreachableEnv ''sales_db'' = Inr ?c
        \<and> sql_Open unreachableEnv (dataSourceName ?c) = None
        \<and> Ping unreachableEnv (pings emptyWorld) = Some (Errorf ''connection refused'')"
    by code_simp
  have d: "dataSourceName ?c = dsn cachedPool" by code_simp
  note c1 = LoadSource_resolution[where w = cachedWorld and name = "''sales_db''"
      and p = cachedPool and e = ?e, THEN conjunct1, THEN mp, OF h1]
  note c2 = LoadSource_resolution[where w = cachedWorld and name = "''sales_db''"
      and p = cachedPool and e = unreachableEnv and err = "Errorf ''connection refused''",
      THEN conjunct2, THEN conjunct1, THEN mp, OF h2]
  note c3 = LoadSource_resolution[where w = emptyWorld and name = "''unknown_db''" and e = ?e,
      THEN conjunct2, THEN conjunct2, THEN conjunct1, THEN mp, OF h3]
  note c4 = LoadSource_resolution[where w = emptyWorld and name = "''sales_db''" and e = ?e
      and config = ?c,
      THEN conjunct2, THEN conjunct2, THEN conjunct2, THEN conjunct1, THEN mp, OF h4]
  note c5 = LoadSource_resolution[where w = emptyWorld and name = "''sales_db''"
      and e = unreachableEnv and config = ?c and err = "Errorf ''connection refused''",
      THEN conjunct2, THEN conjunct2, THEN conjunct2, THEN conjunct2, THEN mp, OF h5]
  from c1 c2 c3 c4[unfolded d] c5 show ?thesis by (intro conjI)
qed

section \<open>Admission control\<close>









end
